theory Spec2Isabelle
  imports Complex_Main "HOL-Library.Char_ord" "HOL-Library.List_Lexorder"
    "HOL-Library.Product_Lexorder" "HOL-Library.Sublist"
begin

section \<open>CJ Diagnostics farm report (diag.py): a shallow embedding\<close>

text \<open>
  The program is a single Python script. It loads a table of diagnostic test records, either
  the embedded sample (\<^verbatim>\<open>load_sample\<close>) or an uploaded file (\<^verbatim>\<open>read_any_file\<close>),
  narrows it through cascading combo boxes (Specie, Farm, Disease, Result, Period), and
  shows KPIs, per-farm cards and a per-farm report with a disease-by-result pivot.

  Conventions of the embedding.
  \<^item> A Python \<^verbatim>\<open>str\<close> is a \<open>string\<close>; strings are compared as Python compares them
    (lexicographically by character code, a proper prefix first). Characters outside ASCII
    are neither whitespace, nor digits, nor cased letters in this model.
  \<^item> A DataFrame is the list of its rows, in row order. Every cell is present: missing cells
    (pandas NaN in a text column) are outside the model.
  \<^item> An exception is a value \<open>Inl e\<close> of a sum type; \<^verbatim>\<open>try/except Exception\<close> is a case
    distinction on that sum.
  \<^item> Python's builtin \<^verbatim>\<open>float(str)\<close> is a parameter \<open>fl\<close> of the loaders: nothing is
    assumed about which strings it accepts or which number it returns.
\<close>

subsection \<open>Python strings: strip, lower, title\<close>

definition isspace :: "char \<Rightarrow> bool" where
  "isspace c = (c \<in> set [CHR 0x09, CHR 0x0A, CHR 0x0B, CHR 0x0C, CHR 0x0D,
                           CHR 0x1C, CHR 0x1D, CHR 0x1E, CHR 0x1F, CHR 0x20])"

text \<open>\<^verbatim>\<open>str.strip()\<close>: leading and trailing whitespace removed.\<close>

definition strip :: "string \<Rightarrow> string" where
  "strip s = rev (dropWhile isspace (rev (dropWhile isspace s)))"

definition upper_letters :: string where
  "upper_letters = ''ABCDEFGHIJKLMNOPQRSTUVWXYZ''"

definition lower_letters :: string where
  "lower_letters = ''abcdefghijklmnopqrstuvwxyz''"

definition isupper :: "char \<Rightarrow> bool" where
  "isupper c = (c \<in> set upper_letters)"

definition islower :: "char \<Rightarrow> bool" where
  "islower c = (c \<in> set lower_letters)"

definition tolower :: "char \<Rightarrow> char" where
  "tolower c = (case map_of (zip upper_letters lower_letters) c of Some l \<Rightarrow> l | None \<Rightarrow> c)"

definition toupper :: "char \<Rightarrow> char" where
  "toupper c = (case map_of (zip lower_letters upper_letters) c of Some u \<Rightarrow> u | None \<Rightarrow> c)"

text \<open>\<^verbatim>\<open>str.lower()\<close>.\<close>

definition lower :: "string \<Rightarrow> string" where
  "lower s = map tolower s"

text \<open>
  \<^verbatim>\<open>str.title()\<close>, as CPython's \<^verbatim>\<open>do_title\<close> computes it: a cased character is
  upper-cased when the character before it is not cased, lower-cased otherwise. The flag is
  \<^verbatim>\<open>previous_is_cased\<close>.
\<close>

fun title_from :: "bool \<Rightarrow> string \<Rightarrow> string" where
  "title_from previous_is_cased [] = []"
| "title_from previous_is_cased (c # cs) =
     (if islower c then
        (if previous_is_cased then c else toupper c) # title_from True cs
      else if isupper c then
        (if previous_is_cased then tolower c else c) # title_from True cs
      else c # title_from False cs)"

definition title :: "string \<Rightarrow> string" where
  "title s = title_from False s"

text \<open>\<^verbatim>\<open>str.replace(old, new)\<close> for a single character \<^verbatim>\<open>old\<close>.\<close>

definition replace_char :: "char \<Rightarrow> char \<Rightarrow> string \<Rightarrow> string" where
  "replace_char old new s = map (\<lambda>c. if c = old then new else c) s"

subsection \<open>Errors and floats\<close>

datatype error = ValueError string | OverflowError string

text \<open>
  A Python float: a finite number (every double is a rational), an infinity or NaN.
  \<^verbatim>\<open>float(s)\<close> is \<open>fl s\<close>: \<open>Inl\<close> when it raises, \<open>Inr\<close> the number otherwise.
\<close>

datatype pyfloat = Finite rat | PosInf | NegInf | NaN

type_synonym float_fn = "string \<Rightarrow> error + pyfloat"

subsection \<open>\<^verbatim>\<open>_to_float_ct\<close>\<close>

definition ct_sentinels :: "string list" where
  "ct_sentinels = ['''', ''na'', ''none'', ''nan'', ''no ct'', ''n/a'']"

text \<open>
  \<^verbatim>\<open>
  def _to_float_ct(x):
      s = str(x).strip().lower()
      if s in {"", "na", "none", "nan", "no ct", "n/a"}:
          return np.nan
      try:
          return float(s)
      except Exception:
          return np.nan
  \<close>
  The argument is the text \<^verbatim>\<open>str(x)\<close> of the cell. The result is \<open>Inr\<close> of the returned
  float, or \<open>Inl\<close> of an exception that leaves the function.
\<close>

definition to_float_ct :: "float_fn \<Rightarrow> string \<Rightarrow> error + pyfloat" where
  "to_float_ct fl x =
     (let s = lower (strip x) in
      if s \<in> set ct_sentinels then Inr NaN
      else (case fl s of Inr v \<Rightarrow> Inr v | Inl e \<Rightarrow> Inr NaN))"

text \<open>The numeric CT is absent when the stored float is NaN.\<close>

definition ct_absent :: "error + pyfloat \<Rightarrow> bool" where
  "ct_absent r = (r = Inr NaN)"

subsection \<open>Result normalization\<close>

text \<open>
  \<^verbatim>\<open>
  df['Result'] = (df['Result'].astype(str).str.strip().str.title()
                      .replace({'Re-Analysis':'Re-analysis','Re-Analysis':'Re-analysis'}))
  \<close>
  \<^verbatim>\<open>Series.replace\<close> with a dict replaces a cell whose whole value equals a key. The dict
  literal repeats one key, so it has the single entry \<^verbatim>\<open>'Re-Analysis'\<close>.
\<close>

definition series_replace :: "(string \<times> string) list \<Rightarrow> string \<Rightarrow> string" where
  "series_replace d v = (case map_of d v of Some w \<Rightarrow> w | None \<Rightarrow> v)"

definition normalize_result :: "string \<Rightarrow> string" where
  "normalize_result raw =
     series_replace [(''Re-Analysis'', ''Re-analysis''), (''Re-Analysis'', ''Re-analysis'')]
       (title (strip raw))"

subsection \<open>Calendar dates\<close>

text \<open>
  A \<^verbatim>\<open>datetime.date\<close> is its triple (year, month, day); Python compares dates in this
  order, which is the lexicographic order of the triple. The functions below follow
  CPython's \<^verbatim>\<open>datetime\<close> module.
\<close>

type_synonym date = "int \<times> int \<times> int"

definition is_leap :: "int \<Rightarrow> bool" where
  "is_leap year = (year mod 4 = 0 \<and> (year mod 100 \<noteq> 0 \<or> year mod 400 = 0))"

definition DAYS_IN_MONTH :: "int list" where
  "DAYS_IN_MONTH = [-1, 31, 28, 31, 30, 31, 30, 31, 31, 30, 31, 30, 31]"

definition DAYS_BEFORE_MONTH :: "int list" where
  "DAYS_BEFORE_MONTH = [-1, 0, 31, 59, 90, 120, 151, 181, 212, 243, 273, 304, 334]"

definition days_in_month :: "int \<Rightarrow> int \<Rightarrow> int" where
  "days_in_month year month =
     (if month = 2 \<and> is_leap year then 29 else DAYS_IN_MONTH ! nat month)"

definition days_before_year :: "int \<Rightarrow> int" where
  "days_before_year year =
     (let y = year - 1 in y * 365 + y div 4 - y div 100 + y div 400)"

definition days_before_month :: "int \<Rightarrow> int \<Rightarrow> int" where
  "days_before_month year month =
     DAYS_BEFORE_MONTH ! nat month + (if month > 2 \<and> is_leap year then 1 else 0)"

text \<open>\<^verbatim>\<open>date(year, month, day)\<close>: raises ValueError outside the calendar.\<close>

definition new_date :: "int \<Rightarrow> int \<Rightarrow> int \<Rightarrow> error + date" where
  "new_date year month day =
     (if \<not> (1 \<le> year \<and> year \<le> 9999) then Inl (ValueError ''year is out of range'')
      else if \<not> (1 \<le> month \<and> month \<le> 12) then Inl (ValueError ''month must be in 1..12'')
      else if \<not> (1 \<le> day \<and> day \<le> days_in_month year month)
        then Inl (ValueError ''day is out of range for month'')
      else Inr (year, month, day))"

definition ymd2ord :: "date \<Rightarrow> int" where
  "ymd2ord dt = (case dt of (year, month, day) \<Rightarrow>
     days_before_year year + days_before_month year month + day)"

definition ord2ymd :: "int \<Rightarrow> date" where
  "ord2ymd n0 =
     (let n = n0 - 1;
          n400 = n div 146097; n = n mod 146097;
          year = n400 * 400 + 1;
          n100 = n div 36524; n = n mod 36524;
          n4 = n div 1461; n = n mod 1461;
          n1 = n div 365; n = n mod 365;
          year = year + n100 * 100 + n4 * 4 + n1
      in if n1 = 4 \<or> n100 = 4 then (year - 1, 12, 31)
         else
           let leapyear = (n1 = 3 \<and> (n4 \<noteq> 24 \<or> n100 = 3));
               month = (n + 50) div 32;
               preceding = DAYS_BEFORE_MONTH ! nat month + (if month > 2 \<and> leapyear then 1 else 0)
           in if preceding > n
              then let month' = month - 1;
                       preceding' = preceding -
                         (DAYS_IN_MONTH ! nat month' + (if month' = 2 \<and> leapyear then 1 else 0))
                   in (year, month', n - preceding' + 1)
              else (year, month, n - preceding + 1))"

definition MAXORDINAL :: int where
  "MAXORDINAL = 3652059"

text \<open>Rounding to the nearest integer, ties to even, as \<^verbatim>\<open>timedelta\<close> rounds microseconds.\<close>

definition round_half_even :: "rat \<Rightarrow> int" where
  "round_half_even q =
     (let f = \<lfloor>q\<rfloor>; r = q - of_int f in
      if r < 1 / 2 then f
      else if r > 1 / 2 then f + 1
      else if even f then f else f + 1)"

definition US_PER_DAY :: int where
  "US_PER_DAY = 86400000000"

text \<open>
  The \<^verbatim>\<open>days\<close> field of \<^verbatim>\<open>timedelta(days=x)\<close> for a float \<^verbatim>\<open>x\<close>: the duration is rounded
  to whole microseconds and normalised so that seconds and microseconds are not negative;
  an infinity or a magnitude above 999999999 days raises OverflowError, NaN raises
  ValueError. The double arithmetic inside \<^verbatim>\<open>timedelta\<close> is taken as exact.
\<close>

definition timedelta_days :: "pyfloat \<Rightarrow> error + int" where
  "timedelta_days x =
     (case x of
        NaN \<Rightarrow> Inl (ValueError ''cannot convert float NaN to integer'')
      | PosInf \<Rightarrow> Inl (OverflowError ''cannot convert float infinity to integer'')
      | NegInf \<Rightarrow> Inl (OverflowError ''cannot convert float infinity to integer'')
      | Finite q \<Rightarrow>
          (let us = round_half_even (q * of_int US_PER_DAY);
               days = us div US_PER_DAY
           in if \<bar>days\<bar> > 999999999
              then Inl (OverflowError ''days must have magnitude <= 999999999'')
              else Inr days))"

text \<open>
  \<^verbatim>\<open>(datetime(y, m, d) + timedelta).date()\<close> for a datetime at midnight: the date moves by
  the \<^verbatim>\<open>days\<close> field and the time of day is dropped; OverflowError outside years 1..9999.
\<close>

definition datetime_add_date :: "date \<Rightarrow> int \<Rightarrow> error + date" where
  "datetime_add_date base days =
     (let n = ymd2ord base + days in
      if 0 < n \<and> n \<le> MAXORDINAL then Inr (ord2ymd n)
      else Inl (OverflowError ''date value out of range''))"

subsection \<open>\<^verbatim>\<open>datetime.strptime\<close> for the directives \<^verbatim>\<open>%Y\<close>, \<^verbatim>\<open>%m\<close>, \<^verbatim>\<open>%d\<close>\<close>

text \<open>
  A format is a list of directives and literal characters. CPython turns it into a regular
  expression, one group per directive:
  \<^verbatim>\<open>%Y\<close> is \<^verbatim>\<open>\d\d\d\d\<close>, \<^verbatim>\<open>%m\<close> is \<^verbatim>\<open>1[0-2]|0[1-9]|[1-9]\<close> and
  \<^verbatim>\<open>%d\<close> is \<^verbatim>\<open>3[0-1]|[1-2]\d|0[1-9]|[1-9]| [1-9]\<close>.
  An alternative is a sequence of character classes; a class is the string of its characters.
\<close>

datatype directive = Year | Month | Day | Lit char

definition digits :: string where
  "digits = ''0123456789''"

definition nonzero :: string where
  "nonzero = ''123456789''"

fun alternatives :: "directive \<Rightarrow> string list list" where
  "alternatives Year = [[digits, digits, digits, digits]]"
| "alternatives Month = [[''1'', ''012''], [''0'', nonzero], [nonzero]]"
| "alternatives Day =
     [[''3'', ''01''], [''12'', digits], [''0'', nonzero], [nonzero], ['' '', nonzero]]"
| "alternatives (Lit c) = [[[c]]]"

fun match_classes :: "string list \<Rightarrow> string \<Rightarrow> (string \<times> string) option" where
  "match_classes [] s = Some ([], s)"
| "match_classes (cl # cls) [] = None"
| "match_classes (cl # cls) (c # s) =
     (if c \<in> set cl
      then (case match_classes cls s of None \<Rightarrow> None | Some (m, r) \<Rightarrow> Some (c # m, r))
      else None)"

text \<open>
  \<^verbatim>\<open>re.match\<close> with backtracking: all the ways to match the format at the start of the
  string, in the order in which the regex engine finds them; each is the text of the groups
  and the unmatched rest. The head of the list is the match that \<^verbatim>\<open>re.match\<close> returns.
\<close>

fun re_match :: "directive list \<Rightarrow> string \<Rightarrow> ((directive \<times> string) list \<times> string) list" where
  "re_match [] s = [([], s)]"
| "re_match (d # ds) s =
     concat (map (\<lambda>alt. case match_classes alt s of
                     None \<Rightarrow> []
                   | Some (txt, rest) \<Rightarrow> map (\<lambda>(found, r). ((d, txt) # found, r)) (re_match ds rest))
                 (alternatives d))"

definition digit_val :: "char \<Rightarrow> int" where
  "digit_val c = (case map_of (zip digits [0, 1, 2, 3, 4, 5, 6, 7, 8, 9]) c of
                    Some v \<Rightarrow> v | None \<Rightarrow> 0)"

text \<open>\<^verbatim>\<open>int(s)\<close> on the text of a group: digits, after an optional blank.\<close>

definition py_int :: "string \<Rightarrow> int" where
  "py_int s = foldl (\<lambda>n c. 10 * n + digit_val c) 0 (strip s)"

text \<open>
  \<^verbatim>\<open>datetime.strptime(s, fmt).date()\<close>. The match must use up the whole string, and the
  numbers must form a date. (A format without \<^verbatim>\<open>%Y\<close> defaults the year to 1900, month and
  day to 1; every format of the program has all three directives.)
\<close>

definition strptime :: "string \<Rightarrow> directive list \<Rightarrow> error + date" where
  "strptime s fmt =
     (case re_match fmt s of
        [] \<Rightarrow> Inl (ValueError ''time data does not match format'')
      | (found, rest) # _ \<Rightarrow>
          if rest \<noteq> [] then Inl (ValueError ''unconverted data remains'')
          else new_date (case map_of found Year of Some t \<Rightarrow> py_int t | None \<Rightarrow> 1900)
                        (case map_of found Month of Some t \<Rightarrow> py_int t | None \<Rightarrow> 1)
                        (case map_of found Day of Some t \<Rightarrow> py_int t | None \<Rightarrow> 1))"

subsection \<open>\<^verbatim>\<open>_parse_date_any\<close>\<close>

definition fmt_Y_dot_m_dot_d :: "directive list" where
  "fmt_Y_dot_m_dot_d = [Year, Lit CHR ''.'', Month, Lit CHR ''.'', Day]"

definition fmt_Y_dash_m_dash_d :: "directive list" where
  "fmt_Y_dash_m_dash_d = [Year, Lit CHR ''-'', Month, Lit CHR ''-'', Day]"

definition fmt_Y_slash_m_slash_d :: "directive list" where
  "fmt_Y_slash_m_slash_d = [Year, Lit CHR ''/'', Month, Lit CHR ''/'', Day]"

definition fmt_m_slash_d_slash_Y :: "directive list" where
  "fmt_m_slash_d_slash_Y = [Month, Lit CHR ''/'', Day, Lit CHR ''/'', Year]"

definition fmt_d_slash_m_slash_Y :: "directive list" where
  "fmt_d_slash_m_slash_Y = [Day, Lit CHR ''/'', Month, Lit CHR ''/'', Year]"

definition date_formats :: "directive list list" where
  "date_formats = [fmt_Y_dot_m_dot_d, fmt_Y_dash_m_dash_d, fmt_Y_slash_m_slash_d,
                   fmt_m_slash_d_slash_Y, fmt_d_slash_m_slash_Y]"

text \<open>
  \<^verbatim>\<open>
  def _parse_date_any(s: str) -> date:
      s = str(s).strip()
      for fmt in ("%Y.%m.%d","%Y-%m-%d","%Y/%m/%d","%m/%d/%Y","%d/%m/%Y"):
          try:
              return datetime.strptime(s, fmt).date()
          except Exception:
              pass
      # excel serial?
      try:
          base = datetime(1899,12,30)
          return (base + timedelta(days=float(s))).date()
      except Exception:
          raise ValueError(f"Failed to parse date: {s}")
  \<close>
  The loop over the formats is \<open>try_formats\<close>: \<open>Some\<close> is the \<^verbatim>\<open>return\<close> inside the loop,
  \<open>None\<close> is falling out of it.
\<close>

fun try_formats :: "directive list list \<Rightarrow> string \<Rightarrow> date option" where
  "try_formats [] s = None"
| "try_formats (fmt # fmts) s =
     (case strptime s fmt of Inr d \<Rightarrow> Some d | Inl e \<Rightarrow> try_formats fmts s)"

definition excel_serial :: "float_fn \<Rightarrow> string \<Rightarrow> error + date" where
  "excel_serial fl s =
     (let base = (1899, 12, 30) in
      case fl s of
        Inl e \<Rightarrow> Inl e
      | Inr x \<Rightarrow> (case timedelta_days x of
                    Inl e \<Rightarrow> Inl e
                  | Inr days \<Rightarrow> datetime_add_date base days))"

definition parse_date_any :: "float_fn \<Rightarrow> string \<Rightarrow> error + date" where
  "parse_date_any fl s0 =
     (let s = strip s0 in
      case try_formats date_formats s of
        Some d \<Rightarrow> Inr d
      | None \<Rightarrow> (case excel_serial fl s of
                   Inr d \<Rightarrow> Inr d
                 | Inl e \<Rightarrow> Inl (ValueError (''Failed to parse date: '' @ s))))"

text \<open>
  The date cell of the embedded sample, in \<^verbatim>\<open>load_sample\<close>:
  \<^verbatim>\<open>
  df['Test_Date'] = df['Test_Date'].astype(str).str.replace('.', '-', regex=False)
  df['Test_Date'] = df['Test_Date'].apply(lambda x: datetime.strptime(x, '%Y-%m-%d').date())
  \<close>
\<close>

definition sample_date :: "string \<Rightarrow> error + date" where
  "sample_date x = strptime (replace_char CHR ''.'' CHR ''-'' x) fmt_Y_dash_m_dash_d"

subsection \<open>Records and the two loaders\<close>

text \<open>
  A row of the input table (after \<^verbatim>\<open>_std_columns\<close> has checked that the eight columns are
  there), and a row of the loaded DataFrame, which has the two derived columns
  \<^verbatim>\<open>CT_Value_Num\<close> and \<^verbatim>\<open>is_positive\<close>. The text cells are \<^verbatim>\<open>str(cell)\<close>.
\<close>

record raw_row =
  raw_number :: int
  raw_Sample_ID :: string
  raw_Specie :: string
  raw_Farm_Name :: string
  raw_Disease :: string
  raw_Test_Date :: string
  raw_CT_Value :: string
  raw_Result :: string

record row =
  number :: int
  Sample_ID :: string
  Specie :: string
  Farm_Name :: string
  Disease :: string
  Test_Date :: date
  CT_Value :: string
  CT_Value_Num :: pyfloat
  Result :: string
  is_positive :: bool

text \<open>\<^verbatim>\<open>Series.apply(f)\<close>: the first exception of \<^verbatim>\<open>f\<close> leaves the whole statement.\<close>

fun series_apply :: "('a \<Rightarrow> error + 'b) \<Rightarrow> 'a list \<Rightarrow> error + 'b list" where
  "series_apply f [] = Inr []"
| "series_apply f (x # xs) =
     (case f x of
        Inl e \<Rightarrow> Inl e
      | Inr y \<Rightarrow> (case series_apply f xs of Inl e \<Rightarrow> Inl e | Inr ys \<Rightarrow> Inr (y # ys)))"

definition make_row :: "raw_row \<Rightarrow> date \<Rightarrow> pyfloat \<Rightarrow> row" where
  "make_row r d ct =
     \<lparr>number = raw_number r, Sample_ID = raw_Sample_ID r, Specie = raw_Specie r,
      Farm_Name = raw_Farm_Name r, Disease = raw_Disease r, Test_Date = d,
      CT_Value = raw_CT_Value r, CT_Value_Num = ct,
      Result = normalize_result (raw_Result r),
      is_positive = (normalize_result (raw_Result r) = ''Positive'')\<rparr>"

text \<open>\<^verbatim>\<open>df.sort_values(['Test_Date','Farm_Name','Disease','Sample_ID'])\<close>, a stable sort.\<close>

definition sort_values :: "row list \<Rightarrow> row list" where
  "sort_values df = sort_key (\<lambda>r. (Test_Date r, Farm_Name r, Disease r, Sample_ID r)) df"

text \<open>
  The body shared by \<^verbatim>\<open>load_sample\<close> and \<^verbatim>\<open>read_any_file\<close>; they differ in how the date
  column is parsed. The columns are converted one after the other, as in the source.
\<close>

definition load_frame :: "(string \<Rightarrow> error + date) \<Rightarrow> float_fn \<Rightarrow> raw_row list \<Rightarrow> error + row list" where
  "load_frame parse fl df =
     (case series_apply parse (map raw_Test_Date df) of
        Inl e \<Rightarrow> Inl e
      | Inr dates \<Rightarrow>
          (case series_apply (to_float_ct fl) (map raw_CT_Value df) of
             Inl e \<Rightarrow> Inl e
           | Inr cts \<Rightarrow>
               Inr (sort_values (map (\<lambda>(r, d, ct). make_row r d ct) (zip df (zip dates cts))))))"

text \<open>\<^verbatim>\<open>load_sample\<close>, with the rows of the embedded table \<^verbatim>\<open>RAW\<close> as argument.\<close>

definition load_sample :: "float_fn \<Rightarrow> raw_row list \<Rightarrow> error + row list" where
  "load_sample fl RAW = load_frame sample_date fl RAW"


subsection \<open>The cascading combo boxes\<close>

text \<open>
  The values the widgets return are the selection. \<open>date_range\<close> is \<open>Some (a, b)\<close> when
  \<^verbatim>\<open>st.date_input\<close> returns a tuple of two dates and \<open>None\<close> when it does not return a tuple.
\<close>

record selection =
  specie :: string
  farm :: string
  disease :: string
  result :: string
  date_range :: "(date \<times> date) option"

text \<open>The constant \<^verbatim>\<open>ALL = "All"\<close> of the source.\<close>

definition ALL_opt :: string where
  "ALL_opt = ''All''"

text \<open>\<^verbatim>\<open>Series.unique()\<close>: the distinct values in order of first appearance.\<close>

fun unique_from :: "'a list \<Rightarrow> 'a list \<Rightarrow> 'a list" where
  "unique_from seen [] = []"
| "unique_from seen (x # xs) =
     (if x \<in> set seen then unique_from seen xs else x # unique_from (x # seen) xs)"

definition unique :: "'a list \<Rightarrow> 'a list" where
  "unique xs = unique_from [] xs"

text \<open>\<^verbatim>\<open>sorted(...)\<close> is \<open>sort\<close>.\<close>

definition specie_opts :: "row list \<Rightarrow> string list" where
  "specie_opts DF = [ALL_opt] @ sort (unique (map Specie DF))"

definition df1 :: "row list \<Rightarrow> selection \<Rightarrow> row list" where
  "df1 DF sel = (if specie sel = ALL_opt then DF else filter (\<lambda>r. Specie r = specie sel) DF)"

definition farm_opts :: "row list \<Rightarrow> selection \<Rightarrow> string list" where
  "farm_opts DF sel = [ALL_opt] @ sort (unique (map Farm_Name (df1 DF sel)))"

definition df2 :: "row list \<Rightarrow> selection \<Rightarrow> row list" where
  "df2 DF sel =
     (if farm sel = ALL_opt then df1 DF sel else filter (\<lambda>r. Farm_Name r = farm sel) (df1 DF sel))"

definition disease_opts :: "row list \<Rightarrow> selection \<Rightarrow> string list" where
  "disease_opts DF sel = [ALL_opt] @ sort (unique (map Disease (df2 DF sel)))"

definition result_opts :: "string list" where
  "result_opts = [ALL_opt, ''Positive'', ''Negative'', ''Re-analysis'']"

text \<open>\<^verbatim>\<open>Series.min()\<close> and \<^verbatim>\<open>Series.max()\<close>; \<open>None\<close> is the NaN of an empty column.\<close>

definition series_min :: "'a::linorder list \<Rightarrow> 'a option" where
  "series_min xs = (case xs of [] \<Rightarrow> None | x # ys \<Rightarrow> Some (fold min ys x))"

definition series_max :: "'a::linorder list \<Rightarrow> 'a option" where
  "series_max xs = (case xs of [] \<Rightarrow> None | x # ys \<Rightarrow> Some (fold max ys x))"

definition dmin :: "row list \<Rightarrow> selection \<Rightarrow> date option" where
  "dmin DF sel = series_min (map Test_Date (df2 DF sel))"

definition dmax :: "row list \<Rightarrow> selection \<Rightarrow> date option" where
  "dmax DF sel = series_max (map Test_Date (df2 DF sel))"

definition d_start :: "row list \<Rightarrow> selection \<Rightarrow> date option" where
  "d_start DF sel = (case date_range sel of Some (a, b) \<Rightarrow> Some a | None \<Rightarrow> dmin DF sel)"

definition d_end :: "row list \<Rightarrow> selection \<Rightarrow> date option" where
  "d_end DF sel = (case date_range sel of Some (a, b) \<Rightarrow> Some b | None \<Rightarrow> dmax DF sel)"

text \<open>
  \<^verbatim>\<open>
  mask = (TD >= d_start) & (TD <= d_end)
  if disease != ALL:
      mask &= df2["Disease"].eq(disease)
  if result != ALL:
      mask &= df2["Result"].eq(result)
  fdf = df2.loc[mask].copy()
  \<close>
  A comparison with an undefined bound is false; the bounds are undefined only when
  \<^verbatim>\<open>df2\<close> has no row.
\<close>

definition in_period :: "date option \<Rightarrow> date option \<Rightarrow> row \<Rightarrow> bool" where
  "in_period lo hi r =
     (case (lo, hi) of (Some a, Some b) \<Rightarrow> Test_Date r \<ge> a \<and> Test_Date r \<le> b | _ \<Rightarrow> False)"

definition mask :: "row list \<Rightarrow> selection \<Rightarrow> row \<Rightarrow> bool" where
  "mask DF sel r =
     (let m = in_period (d_start DF sel) (d_end DF sel) r;
          m = (if disease sel \<noteq> ALL_opt then m \<and> Disease r = disease sel else m);
          m = (if result sel \<noteq> ALL_opt then m \<and> Result r = result sel else m)
      in m)"

definition fdf :: "row list \<Rightarrow> selection \<Rightarrow> row list" where
  "fdf DF sel = filter (mask DF sel) (df2 DF sel)"

subsection \<open>KPIs\<close>




subsection \<open>The farm report\<close>













subsection \<open>The candidate set after each stage\<close>

text \<open>
  The source names the candidate sets after the specie and the farm stage (\<^verbatim>\<open>df1\<close>,
  \<^verbatim>\<open>df2\<close>) and applies the disease, result and period selections in one mask on
  \<^verbatim>\<open>df2\<close>. The candidate sets after the disease, the result and the period stage are the
  rows that pass the mask up to that stage.
\<close>

definition after_disease :: "row list \<Rightarrow> selection \<Rightarrow> row list" where
  "after_disease DF sel =
     (if disease sel \<noteq> ALL_opt then filter (\<lambda>r. Disease r = disease sel) (df2 DF sel)
      else df2 DF sel)"

definition after_result :: "row list \<Rightarrow> selection \<Rightarrow> row list" where
  "after_result DF sel =
     (if result sel \<noteq> ALL_opt then filter (\<lambda>r. Result r = result sel) (after_disease DF sel)
      else after_disease DF sel)"

definition after_period :: "row list \<Rightarrow> selection \<Rightarrow> row list" where
  "after_period DF sel =
     filter (in_period (d_start DF sel) (d_end DF sel)) (after_result DF sel)"


subsection \<open>Example data\<close>

text \<open>
  A float function for the examples: Python's \<^verbatim>\<open>float\<close> on the three numerals used below;
  on every other string it raises, as \<^verbatim>\<open>float\<close> does on a string that is not a number.
\<close>

definition fl_examples :: float_fn where
  "fl_examples s =
     (if s = ''31.5'' then Inr (Finite (63 / 2))
      else if s = ''33.9'' then Inr (Finite (339 / 10))
      else if s = ''45958.75'' then Inr (Finite (183835 / 4))
      else Inl (ValueError ''could not convert string to float''))"



text \<open>A loaded record set with two farms, two species and three diseases.\<close>

definition demo_DF :: "row list" where
  "demo_DF =
     [\<lparr>number = 1, Sample_ID = ''2025-001'', Specie = ''Swine'', Farm_Name = ''Abcede'',
       Disease = ''ASF'', Test_Date = (2025, 10, 27), CT_Value = ''No Ct'',
       CT_Value_Num = NaN, Result = ''Negative'', is_positive = False\<rparr>,
      \<lparr>number = 2, Sample_ID = ''2025-002'', Specie = ''Swine'', Farm_Name = ''Abcede'',
       Disease = ''PRRS'', Test_Date = (2025, 10, 28), CT_Value = ''31.5'',
       CT_Value_Num = Finite (63 / 2), Result = ''Positive'', is_positive = True\<rparr>,
      \<lparr>number = 3, Sample_ID = ''2025-003'', Specie = ''Layer'', Farm_Name = ''Verino'',
       Disease = ''IBD'', Test_Date = (2025, 11, 30), CT_Value = ''No Ct'',
       CT_Value_Num = NaN, Result = ''Negative'', is_positive = False\<rparr>]"

definition sel_all :: selection where
  "sel_all = \<lparr>specie = ''All'', farm = ''All'', disease = ''All'', result = ''All'',
              date_range = None\<rparr>"

subsection \<open>Replacing "." by "-"\<close>

text \<open>
  The character map of \<^verbatim>\<open>str.replace('.', '-')\<close>, the same replacement in the literals of
  a format, and the characters that a format can match.
\<close>

definition dot_to_dash :: "char \<Rightarrow> char" where
  "dot_to_dash c = (if c = CHR ''.'' then CHR ''-'' else c)"

fun dashed :: "directive \<Rightarrow> directive" where
  "dashed (Lit c) = Lit (dot_to_dash c)"
| "dashed d = d"

definition fmt_chars :: "directive list \<Rightarrow> string" where
  "fmt_chars fmt = concat (concat (concat (map alternatives fmt)))"

section \<open>Properties\<close>

subsection \<open>Letters\<close>















lemmas string_eval =
  strip_def isspace_def lower_def title_def islower_def isupper_def toupper_def tolower_def
  upper_letters_def lower_letters_def normalize_result_def series_replace_def

subsection \<open>CT values (C8)\<close>

text \<open>
  Claim C8. For every CT input value, \<^verbatim>\<open>_to_float_ct\<close> lower-cases and trims it. If the
  result is one of the sentinel tokens "", "na", "none", "nan", "no ct", "n/a", the numeric
  CT is absent. Otherwise \<^verbatim>\<open>float\<close> is tried on the trimmed lower-case text: when it
  returns, its value is the numeric CT; when it raises, the numeric CT is absent. No input
  and no behaviour of \<^verbatim>\<open>float\<close> makes \<^verbatim>\<open>_to_float_ct\<close> raise.
\<close>

theorem to_float_ct_never_raises:
  "(\<exists>v. to_float_ct fl x = Inr v) \<and>
   ct_sentinels = ['''', ''na'', ''none'', ''nan'', ''no ct'', ''n/a''] \<and>
   (lower (strip x) \<in> set ct_sentinels \<longrightarrow> ct_absent (to_float_ct fl x)) \<and>
   (lower (strip x) \<notin> set ct_sentinels \<longrightarrow>
      (\<forall>v. fl (lower (strip x)) = Inr v \<longrightarrow> to_float_ct fl x = Inr v) \<and>
      (\<forall>e. fl (lower (strip x)) = Inl e \<longrightarrow> ct_absent (to_float_ct fl x)))"
proof -
  have "\<exists>v. to_float_ct fl x = Inr v"
    by (simp add: to_float_ct_def Let_def split: sum.splits)
  moreover have "ct_sentinels = ['''', ''na'', ''none'', ''nan'', ''no ct'', ''n/a'']"
    by (simp add: ct_sentinels_def)
  moreover have "lower (strip x) \<in> set ct_sentinels \<longrightarrow> ct_absent (to_float_ct fl x)"
    by (simp add: to_float_ct_def ct_absent_def Let_def)
  moreover have "lower (strip x) \<notin> set ct_sentinels \<longrightarrow>
      (\<forall>v. fl (lower (strip x)) = Inr v \<longrightarrow> to_float_ct fl x = Inr v) \<and>
      (\<forall>e. fl (lower (strip x)) = Inl e \<longrightarrow> ct_absent (to_float_ct fl x))"
    by (simp add: to_float_ct_def ct_absent_def Let_def)
  ultimately show ?thesis by blast
qed

theorem to_float_ct_never_raises_witness:
  "lower (strip '' No Ct '') \<in> set ct_sentinels \<and>
   ct_absent (to_float_ct fl_examples '' No Ct '') \<and>
   lower (strip ''31.5'') \<notin> set ct_sentinels \<and>
   to_float_ct fl_examples ''31.5'' = Inr (Finite (63 / 2)) \<and>
   lower (strip ''Undetermined'') \<notin> set ct_sentinels \<and>
   ct_absent (to_float_ct fl_examples ''Undetermined'')"
proof -
  have a: "lower (strip '' No Ct '') \<in> set ct_sentinels"
    by (simp add: string_eval ct_sentinels_def)
  have b: "lower (strip ''31.5'') \<notin> set ct_sentinels"
    by (simp add: string_eval ct_sentinels_def)
  have c: "lower (strip ''Undetermined'') \<notin> set ct_sentinels"
    by (simp add: string_eval ct_sentinels_def)
  have fb: "fl_examples (lower (strip ''31.5'')) = Inr (Finite (63 / 2))"
    by (simp add: string_eval fl_examples_def)
  have fc: "fl_examples (lower (strip ''Undetermined'')) =
      Inl (ValueError ''could not convert string to float'')"
    by (simp add: string_eval fl_examples_def)
  from to_float_ct_never_raises [of fl_examples "'' No Ct ''"] a
  have 1: "ct_absent (to_float_ct fl_examples '' No Ct '')" by blast
  from to_float_ct_never_raises [of fl_examples "''31.5''"] b fb
  have 2: "to_float_ct fl_examples ''31.5'' = Inr (Finite (63 / 2))" by blast
  from to_float_ct_never_raises [of fl_examples "''Undetermined''"] c fc
  have 3: "ct_absent (to_float_ct fl_examples ''Undetermined'')" by blast
  from a b c 1 2 3 show ?thesis by blast
qed

subsection \<open>Result normalization (C9)\<close>




subsection \<open>Distinct values, extrema\<close>

lemma set_unique_from: "set (unique_from seen xs) = set xs - set seen"
  by (induction seen xs rule: unique_from.induct) auto

lemma distinct_unique_from: "distinct (unique_from seen xs)"
  by (induction seen xs rule: unique_from.induct) (auto simp: set_unique_from)

lemma sort_unique: "sort (unique xs) = sorted_list_of_set (set xs)"
proof (rule sorted_distinct_set_unique)
  show "sorted (sort (unique xs))" by simp
  show "distinct (sort (unique xs))" by (simp add: unique_def distinct_unique_from)
  show "sorted (sorted_list_of_set (set xs))" by simp
  show "distinct (sorted_list_of_set (set xs))" by simp
  show "set (sort (unique xs)) = set (sorted_list_of_set (set xs))"
    by (simp add: unique_def set_unique_from)
qed

lemma series_min_Min: "series_min xs = (if xs = [] then None else Some (Min (set xs)))"
proof (cases xs)
  case Nil
  then show ?thesis by (simp add: series_min_def)
next
  case (Cons x ys)
  with Min.set_eq_fold [of x ys] show ?thesis by (simp add: series_min_def)
qed

lemma series_max_Max: "series_max xs = (if xs = [] then None else Some (Max (set xs)))"
proof (cases xs)
  case Nil
  then show ?thesis by (simp add: series_max_def)
next
  case (Cons x ys)
  with Max.set_eq_fold [of x ys] show ?thesis by (simp add: series_max_def)
qed

subsection \<open>Monotonic narrowing (C4)\<close>

lemma fdf_after_period: "fdf DF sel = after_period DF sel"
  by (auto simp: fdf_def after_period_def after_result_def after_disease_def mask_def Let_def
      intro: filter_cong)

text \<open>
  Claim C4. For every record set and every selection, the candidate set after each stage
  (specie, farm, disease, result, period) is a part of the candidate set after the stage
  before it: it keeps some of its rows, in their order. The set after the period stage is
  the filtered DataFrame \<^verbatim>\<open>fdf\<close> of the source. A selection of "All" keeps every row at
  its stage.
\<close>

theorem narrowing_monotonic:
  "subseq (df1 DF sel) DF \<and>
   subseq (df2 DF sel) (df1 DF sel) \<and>
   subseq (after_disease DF sel) (df2 DF sel) \<and>
   subseq (after_result DF sel) (after_disease DF sel) \<and>
   subseq (after_period DF sel) (after_result DF sel) \<and>
   set (df1 DF sel) \<subseteq> set DF \<and>
   set (df2 DF sel) \<subseteq> set (df1 DF sel) \<and>
   set (after_disease DF sel) \<subseteq> set (df2 DF sel) \<and>
   set (after_result DF sel) \<subseteq> set (after_disease DF sel) \<and>
   set (after_period DF sel) \<subseteq> set (after_result DF sel) \<and>
   fdf DF sel = after_period DF sel \<and>
   (specie sel = ALL_opt \<longrightarrow> df1 DF sel = DF) \<and>
   (farm sel = ALL_opt \<longrightarrow> df2 DF sel = df1 DF sel) \<and>
   (disease sel = ALL_opt \<longrightarrow> after_disease DF sel = df2 DF sel) \<and>
   (result sel = ALL_opt \<longrightarrow> after_result DF sel = after_disease DF sel)"
proof -
  have s1: "subseq (df1 DF sel) DF" by (simp add: df1_def)
  have s2: "subseq (df2 DF sel) (df1 DF sel)" by (simp add: df2_def)
  have s3: "subseq (after_disease DF sel) (df2 DF sel)" by (simp add: after_disease_def)
  have s4: "subseq (after_result DF sel) (after_disease DF sel)" by (simp add: after_result_def)
  have s5: "subseq (after_period DF sel) (after_result DF sel)" by (simp add: after_period_def)
  have t1: "set (df1 DF sel) \<subseteq> set DF" by (simp add: df1_def)
  have t2: "set (df2 DF sel) \<subseteq> set (df1 DF sel)" by (simp add: df2_def)
  have t3: "set (after_disease DF sel) \<subseteq> set (df2 DF sel)" by (simp add: after_disease_def)
  have t4: "set (after_result DF sel) \<subseteq> set (after_disease DF sel)"
    by (simp add: after_result_def)
  have t5: "set (after_period DF sel) \<subseteq> set (after_result DF sel)"
    by (simp add: after_period_def)
  have a: "specie sel = ALL_opt \<longrightarrow> df1 DF sel = DF"
    "farm sel = ALL_opt \<longrightarrow> df2 DF sel = df1 DF sel"
    "disease sel = ALL_opt \<longrightarrow> after_disease DF sel = df2 DF sel"
    "result sel = ALL_opt \<longrightarrow> after_result DF sel = after_disease DF sel"
    by (simp_all add: df1_def df2_def after_disease_def after_result_def)
  from s1 s2 s3 s4 s5 t1 t2 t3 t4 t5 a fdf_after_period [of DF sel] show ?thesis by blast
qed

lemma demo_dates: "series_min (map Test_Date demo_DF) = Some (2025, 10, 27)"
  "series_max (map Test_Date demo_DF) = Some (2025, 11, 30)"
  by (simp_all add: series_min_def series_max_def demo_DF_def min_def max_def)

theorem narrowing_monotonic_witness:
  "specie sel_all = ALL_opt \<and> farm sel_all = ALL_opt \<and> disease sel_all = ALL_opt \<and>
   result sel_all = ALL_opt \<and> after_result demo_DF sel_all = demo_DF \<and>
   subseq (fdf demo_DF sel_all) demo_DF"
proof -
  have h: "specie sel_all = ALL_opt" "farm sel_all = ALL_opt" "disease sel_all = ALL_opt"
    "result sel_all = ALL_opt"
    by (simp_all add: sel_all_def ALL_opt_def)
  note m = narrowing_monotonic [of demo_DF sel_all]
  from m h have e: "after_result demo_DF sel_all = demo_DF" by simp
  from m have "subseq (fdf demo_DF sel_all) (after_result demo_DF sel_all)" by simp
  with h e show ?thesis by simp
qed

subsection \<open>Option lists (C3)\<close>

lemma set_df1: "set (df1 DF sel) = {r \<in> set DF. specie sel = ALL_opt \<or> Specie r = specie sel}"
  by (auto simp: df1_def)

lemma set_df2:
  "set (df2 DF sel) = {r \<in> set (df1 DF sel). farm sel = ALL_opt \<or> Farm_Name r = farm sel}"
  by (auto simp: df2_def)

text \<open>
  Claim C3, as stated, says that the option list offered at each stage is "All" followed by
  the sorted distinct values of the stage's field within the candidate set of the stage
  before. The result stage offers a fixed list: with the specie Layer selected, the only
  result among the candidates is Negative, and the result options still are All, Positive,
  Negative and Re-analysis.
\<close>

theorem result_opts_fixed_counterexample:
  "result_opts = [''All'', ''Positive'', ''Negative'', ''Re-analysis''] \<and>
   [ALL_opt] @ sort (unique (map Result (after_disease demo_DF (sel_all\<lparr>specie := ''Layer''\<rparr>))))
     = [''All'', ''Negative'']"
  by (simp add: result_opts_def ALL_opt_def after_disease_def df2_def df1_def sel_all_def
      demo_DF_def unique_def)

text \<open>
  Claim C3, amended. For every record set and every selection, the option lists of the
  specie, farm and disease stages are "All" followed by the sorted distinct values of the
  stage's field within the candidate set of the stage before: the species of the whole
  record set, the farms of the specie-narrowed set \<^verbatim>\<open>df1\<close>, the diseases of the
  specie-and-farm-narrowed set \<^verbatim>\<open>df2\<close>. The result stage offers the fixed list All,
  Positive, Negative, Re-analysis. With the specie Swine selected, a farm is among the farm
  options after "All" exactly when it has a Swine row.
\<close>

theorem option_lists_spec:
  "specie_opts DF = ALL_opt # sorted_list_of_set (Specie ` set DF) \<and>
   farm_opts DF sel = ALL_opt # sorted_list_of_set (Farm_Name ` set (df1 DF sel)) \<and>
   disease_opts DF sel = ALL_opt # sorted_list_of_set (Disease ` set (df2 DF sel)) \<and>
   set (df1 DF sel) = {r \<in> set DF. specie sel = ALL_opt \<or> Specie r = specie sel} \<and>
   set (df2 DF sel) = {r \<in> set (df1 DF sel). farm sel = ALL_opt \<or> Farm_Name r = farm sel} \<and>
   result_opts = [ALL_opt, ''Positive'', ''Negative'', ''Re-analysis''] \<and>
   (specie sel = ''Swine'' \<longrightarrow>
      (\<forall>f. f \<in> set (tl (farm_opts DF sel)) \<longleftrightarrow>
           (\<exists>r \<in> set DF. Specie r = ''Swine'' \<and> Farm_Name r = f)))"
proof -
  have 1: "specie_opts DF = ALL_opt # sorted_list_of_set (Specie ` set DF)"
    by (simp add: specie_opts_def sort_unique)
  have 2: "farm_opts DF sel = ALL_opt # sorted_list_of_set (Farm_Name ` set (df1 DF sel))"
    by (simp add: farm_opts_def sort_unique)
  have 3: "disease_opts DF sel = ALL_opt # sorted_list_of_set (Disease ` set (df2 DF sel))"
    by (simp add: disease_opts_def sort_unique)
  have 4: "result_opts = [ALL_opt, ''Positive'', ''Negative'', ''Re-analysis'']"
    by (simp add: result_opts_def)
  have 5: "specie sel = ''Swine'' \<longrightarrow>
      (\<forall>f. f \<in> set (tl (farm_opts DF sel)) \<longleftrightarrow>
           (\<exists>r \<in> set DF. Specie r = ''Swine'' \<and> Farm_Name r = f))"
  proof
    assume sw: "specie sel = ''Swine''"
    then have "df1 DF sel = filter (\<lambda>r. Specie r = ''Swine'') DF"
      by (simp add: df1_def ALL_opt_def)
    then show "\<forall>f. f \<in> set (tl (farm_opts DF sel)) \<longleftrightarrow>
           (\<exists>r \<in> set DF. Specie r = ''Swine'' \<and> Farm_Name r = f)"
      by (auto simp: 2)
  qed
  from 1 2 3 4 5 set_df1 [of DF sel] set_df2 [of DF sel] show ?thesis by blast
qed

theorem option_lists_spec_witness:
  "specie (sel_all\<lparr>specie := ''Swine''\<rparr>) = ''Swine'' \<and>
   farm_opts demo_DF (sel_all\<lparr>specie := ''Swine''\<rparr>) = [''All'', ''Abcede''] \<and>
   ''Verino'' \<in> Farm_Name ` set demo_DF \<and>
   ''Verino'' \<notin> set (tl (farm_opts demo_DF (sel_all\<lparr>specie := ''Swine''\<rparr>)))"
proof -
  have h: "specie (sel_all\<lparr>specie := ''Swine''\<rparr>) = ''Swine''" by simp
  have "\<not> (\<exists>r \<in> set demo_DF. Specie r = ''Swine'' \<and> Farm_Name r = ''Verino'')"
    by (simp add: demo_DF_def)
  with option_lists_spec [of demo_DF "sel_all\<lparr>specie := ''Swine''\<rparr>"] h
  have n: "''Verino'' \<notin> set (tl (farm_opts demo_DF (sel_all\<lparr>specie := ''Swine''\<rparr>)))"
    by blast
  have f: "farm_opts demo_DF (sel_all\<lparr>specie := ''Swine''\<rparr>) = [''All'', ''Abcede'']"
    by (simp add: farm_opts_def df1_def ALL_opt_def sel_all_def demo_DF_def unique_def)
  have v: "''Verino'' \<in> Farm_Name ` set demo_DF" by (simp add: demo_DF_def)
  from h f v n show ?thesis by blast
qed

subsection \<open>Default period (C1)\<close>

text \<open>
  Claim C1, as stated, says that the default period bounds are the least and the greatest
  test date of the set narrowed by specie, farm, disease and result. With the disease PRRS
  selected the one candidate row is of 2025-10-28, and the default bounds are 2025-10-27 and
  2025-11-30, the extreme dates of \<^verbatim>\<open>df2\<close>.
\<close>

theorem period_default_counterexample:
  "dmin demo_DF (sel_all\<lparr>disease := ''PRRS''\<rparr>) = Some (2025, 10, 27) \<and>
   dmax demo_DF (sel_all\<lparr>disease := ''PRRS''\<rparr>) = Some (2025, 11, 30) \<and>
   series_min (map Test_Date (after_result demo_DF (sel_all\<lparr>disease := ''PRRS''\<rparr>)))
     = Some (2025, 10, 28) \<and>
   series_max (map Test_Date (after_result demo_DF (sel_all\<lparr>disease := ''PRRS''\<rparr>)))
     = Some (2025, 10, 28)"
  by (simp add: dmin_def dmax_def df2_def df1_def sel_all_def ALL_opt_def after_result_def
      after_disease_def demo_dates)
     (simp add: demo_DF_def series_min_def series_max_def)

text \<open>
  Claim C1, amended. For every record set and every selection, the default period bounds
  \<^verbatim>\<open>dmin\<close> and \<^verbatim>\<open>dmax\<close> are the least and the greatest test date of \<^verbatim>\<open>df2\<close>, the set
  narrowed by the specie and farm selections only (undefined when it is empty); the
  disease, result and period selections do not change them. They are the bounds of the
  period filter when the date widget returns no tuple.
\<close>

theorem period_default_spec:
  "dmin DF sel = (if df2 DF sel = [] then None else Some (Min (Test_Date ` set (df2 DF sel)))) \<and>
   dmax DF sel = (if df2 DF sel = [] then None else Some (Max (Test_Date ` set (df2 DF sel)))) \<and>
   dmin DF (sel\<lparr>disease := d, result := r, date_range := p\<rparr>) = dmin DF sel \<and>
   dmax DF (sel\<lparr>disease := d, result := r, date_range := p\<rparr>) = dmax DF sel \<and>
   (date_range sel = None \<longrightarrow> d_start DF sel = dmin DF sel \<and> d_end DF sel = dmax DF sel)"
proof -
  have 1: "dmin DF sel = (if df2 DF sel = [] then None else Some (Min (Test_Date ` set (df2 DF sel))))"
    by (simp add: dmin_def series_min_Min)
  have 2: "dmax DF sel = (if df2 DF sel = [] then None else Some (Max (Test_Date ` set (df2 DF sel))))"
    by (simp add: dmax_def series_max_Max)
  have e: "df2 DF (sel\<lparr>disease := d, result := r, date_range := p\<rparr>) = df2 DF sel"
    by (simp add: df2_def df1_def)
  have 3: "dmin DF (sel\<lparr>disease := d, result := r, date_range := p\<rparr>) = dmin DF sel"
    "dmax DF (sel\<lparr>disease := d, result := r, date_range := p\<rparr>) = dmax DF sel"
    by (simp_all only: dmin_def dmax_def e)
  have 4: "date_range sel = None \<longrightarrow> d_start DF sel = dmin DF sel \<and> d_end DF sel = dmax DF sel"
    by (simp add: d_start_def d_end_def)
  from 1 2 3 4 show ?thesis by blast
qed

theorem period_default_spec_witness:
  "df2 demo_DF sel_all \<noteq> [] \<and> date_range sel_all = None \<and>
   d_start demo_DF sel_all = Some (2025, 10, 27) \<and>
   d_end demo_DF sel_all = Some (2025, 11, 30) \<and>
   dmin demo_DF (sel_all\<lparr>disease := ''PRRS'', result := ''Positive'', date_range := None\<rparr>)
     = Some (2025, 10, 27)"
proof -
  have a: "df2 demo_DF sel_all = demo_DF" by (simp add: df2_def df1_def sel_all_def ALL_opt_def)
  have b: "date_range sel_all = None" by (simp add: sel_all_def)
  have c: "demo_DF \<noteq> []" by (simp add: demo_DF_def)
  have m: "dmin demo_DF sel_all = Some (2025, 10, 27)" "dmax demo_DF sel_all = Some (2025, 11, 30)"
    by (simp_all add: dmin_def dmax_def a demo_dates)
  note p = period_default_spec [where DF = demo_DF and sel = sel_all and d = "''PRRS''"
      and r = "''Positive''" and p = None]
  from p b m have 1: "d_start demo_DF sel_all = Some (2025, 10, 27)"
    and 2: "d_end demo_DF sel_all = Some (2025, 11, 30)" by simp_all
  from p m have 3: "dmin demo_DF (sel_all\<lparr>disease := ''PRRS'', result := ''Positive'', date_range := None\<rparr>)
     = Some (2025, 10, 27)" by simp
  from a b c 1 2 3 show ?thesis by simp
qed

subsection \<open>Summary figures (C5)\<close>

lemma series_apply_length: "series_apply f xs = Inr ys \<Longrightarrow> length ys = length xs"
  by (induction xs arbitrary: ys) (auto split: sum.splits)











subsection \<open>The disease-by-result pivot (C6)\<close>















subsection \<open>The farm report (C2)\<close>












subsection \<open>Date parsing (C7)\<close>
















subsection \<open>Dates of the embedded sample (C10)\<close>

lemma replace_char_dot: "replace_char CHR ''.'' CHR ''-'' x = map dot_to_dash x"
  by (simp add: replace_char_def dot_to_dash_def)

text \<open>
  A string that a format parses is made of characters of the format's classes, and has
  each literal at least as often as the format.
\<close>

lemma match_classes_shape:
  "match_classes cls s = Some (m, rest) \<Longrightarrow>
   s = m @ rest \<and> set m \<subseteq> set (concat cls) \<and> length m = length cls"
proof (induction cls s arbitrary: m rest rule: match_classes.induct)
  case (1 s)
  then show ?case by simp
next
  case (2 cl cls)
  then show ?case by simp
next
  case (3 cl cls c s)
  from "3.prems" obtain m' where c: "c \<in> set cl" and m': "match_classes cls s = Some (m', rest)"
    and m: "m = c # m'"
    by (auto split: if_splits option.splits)
  from "3.IH" [OF c m'] c m show ?case by auto
qed

lemma re_match_shape:
  "(found, rest) \<in> set (re_match fmt s) \<Longrightarrow>
   \<exists>pre. s = pre @ rest \<and> set pre \<subseteq> set (fmt_chars fmt) \<and>
         count_list fmt (Lit c) \<le> count_list pre c"
proof (induction fmt arbitrary: s found)
  case Nil
  then show ?case by (simp add: fmt_chars_def)
next
  case (Cons d ds)
  from Cons.prems obtain alt tx r1 fnd where alt: "alt \<in> set (alternatives d)"
    and mc: "match_classes alt s = Some (tx, r1)"
    and f': "(fnd, rest) \<in> set (re_match ds r1)"
    by (auto split: option.splits) metis
  from match_classes_shape [OF mc] have s: "s = tx @ r1" and t: "set tx \<subseteq> set (concat alt)"
    and l: "length tx = length alt" by simp_all
  from Cons.IH [OF f'] obtain pre where p: "r1 = pre @ rest" "set pre \<subseteq> set (fmt_chars ds)"
    "count_list ds (Lit c) \<le> count_list pre c" by blast
  from t alt have t': "set tx \<subseteq> set (fmt_chars (d # ds))"
    by (auto simp: fmt_chars_def)
  from p(2) have p': "set pre \<subseteq> set (fmt_chars (d # ds))"
    by (auto simp: fmt_chars_def)
  have cnt: "count_list (d # ds) (Lit c) \<le> count_list (tx @ pre) c"
  proof (cases "d = Lit c")
    case True
    with alt have "alt = [[c]]" by simp
    with t l have "tx = [c]" by (cases tx) auto
    with True p(3) show ?thesis by simp
  next
    case False
    with p(3) show ?thesis by simp
  qed
  from s p(1) t' p' cnt have "s = (tx @ pre) @ rest \<and> set (tx @ pre) \<subseteq> set (fmt_chars (d # ds)) \<and>
      count_list (d # ds) (Lit c) \<le> count_list (tx @ pre) c" by simp
  then show ?case by blast
qed

lemma strptime_shape:
  assumes "strptime s fmt = Inr d"
  shows "set s \<subseteq> set (fmt_chars fmt) \<and> count_list fmt (Lit c) \<le> count_list s c"
proof -
  from assms obtain found more where "re_match fmt s = (found, []) # more"
    by (auto simp: strptime_def split: list.splits if_splits)
  then have "(found, []) \<in> set (re_match fmt s)" by simp
  from re_match_shape [OF this, of c] show ?thesis by auto
qed

lemma strptime_ValueError: "strptime s fmt = Inl e \<Longrightarrow> \<exists>msg. e = ValueError msg"
  by (auto simp: strptime_def new_date_def split: list.splits if_splits)


text \<open>
  On a string without "-", replacing "." by "-" in the string and in the format does not
  change what \<^verbatim>\<open>strptime\<close> returns.
\<close>

lemma dot_to_dash_mem:
  "CHR ''-'' \<notin> set cl \<Longrightarrow> c \<noteq> CHR ''-'' \<Longrightarrow>
   (dot_to_dash c \<in> set (map dot_to_dash cl)) = (c \<in> set cl)"
  by (auto simp: dot_to_dash_def split: if_splits)

lemma match_classes_dashed:
  "CHR ''-'' \<notin> set s \<Longrightarrow> CHR ''-'' \<notin> set (concat cls) \<Longrightarrow>
   match_classes (map (map dot_to_dash) cls) (map dot_to_dash s) =
   map_option (\<lambda>(m, r). (map dot_to_dash m, map dot_to_dash r)) (match_classes cls s)"
proof (induction cls s rule: match_classes.induct)
  case (1 s)
  show ?case by simp
next
  case (2 cl cls)
  show ?case by simp
next
  case (3 cl cls c s)
  from "3.prems" have m: "(dot_to_dash c \<in> set (map dot_to_dash cl)) = (c \<in> set cl)"
    by (intro dot_to_dash_mem) auto
  show ?case
  proof (cases "c \<in> set cl")
    case True
    with "3.IH" [OF True] "3.prems" m show ?thesis
      by (cases "match_classes cls s") (auto simp del: set_map)
  next
    case False
    with m show ?thesis by (simp del: set_map)
  qed
qed

lemma alternatives_dashed:
  "alternatives (dashed d) = map (map (map dot_to_dash)) (alternatives d)"
  by (cases d) (simp_all add: digits_def nonzero_def dot_to_dash_def)

lemma match_classes_suffix: "match_classes cls s = Some (m, r) \<Longrightarrow> set r \<subseteq> set s"
  using match_classes_shape [of cls s m r] by auto

lemma re_match_dashed:
  "CHR ''-'' \<notin> set s \<Longrightarrow> CHR ''-'' \<notin> set (fmt_chars fmt) \<Longrightarrow>
   re_match (map dashed fmt) (map dot_to_dash s) =
   map (\<lambda>(found, rest). (map (\<lambda>(d, t). (dashed d, map dot_to_dash t)) found,
                          map dot_to_dash rest))
       (re_match fmt s)"
proof (induction fmt arbitrary: s)
  case Nil
  show ?case by simp
next
  case (Cons d ds)
  let ?phi = "\<lambda>(found, rest). (map (\<lambda>(d, t). (dashed d, map dot_to_dash t)) found,
                          map dot_to_dash rest)"
  from Cons.prems(2) have ds: "CHR ''-'' \<notin> set (fmt_chars ds)"
    by (auto simp: fmt_chars_def)
  have step: "(case match_classes (map (map dot_to_dash) alt) (map dot_to_dash s) of
        None \<Rightarrow> []
      | Some (tx, rest) \<Rightarrow>
          map (\<lambda>(found, r). ((dashed d, tx) # found, r)) (re_match (map dashed ds) rest)) =
      map ?phi (case match_classes alt s of
        None \<Rightarrow> []
      | Some (tx, rest) \<Rightarrow> map (\<lambda>(found, r). ((d, tx) # found, r)) (re_match ds rest))"
    if alt: "alt \<in> set (alternatives d)" for alt
  proof -
    from alt Cons.prems(2) have c: "CHR ''-'' \<notin> set (concat alt)"
      by (auto simp: fmt_chars_def)
    note m = match_classes_dashed [OF Cons.prems(1) c]
    show ?thesis
    proof (cases "match_classes alt s")
      case None
      with m show ?thesis by simp
    next
      case (Some p)
      obtain tx r1 where p: "p = (tx, r1)" by (cases p)
      from Some p match_classes_suffix [of alt s tx r1] Cons.prems(1)
      have "CHR ''-'' \<notin> set r1" by auto
      from Cons.IH [OF this ds] Some p m show ?thesis
        by (simp add: comp_def case_prod_unfold)
    qed
  qed
  have "re_match (map dashed (d # ds)) (map dot_to_dash s) =
      concat (map (\<lambda>alt. case match_classes (map (map dot_to_dash) alt) (map dot_to_dash s) of
        None \<Rightarrow> []
      | Some (tx, rest) \<Rightarrow>
          map (\<lambda>(found, r). ((dashed d, tx) # found, r)) (re_match (map dashed ds) rest))
        (alternatives d))"
    by (simp add: alternatives_dashed comp_def)
  also have "\<dots> = concat (map (\<lambda>alt. map ?phi (case match_classes alt s of
        None \<Rightarrow> []
      | Some (tx, rest) \<Rightarrow> map (\<lambda>(found, r). ((d, tx) # found, r)) (re_match ds rest)))
        (alternatives d))"
    using step by (intro arg_cong [where f = concat] map_cong) auto
  also have "\<dots> = map ?phi (re_match (d # ds) s)"
    by (simp add: map_concat comp_def)
  finally show ?case .
qed

lemma strip_dashed: "strip (map dot_to_dash t) = map dot_to_dash (strip t)"
proof -
  have "isspace \<circ> dot_to_dash = isspace"
    by (auto simp: isspace_def dot_to_dash_def fun_eq_iff)
  then have dw: "dropWhile isspace (map dot_to_dash u) = map dot_to_dash (dropWhile isspace u)"
    for u by (simp add: dropWhile_map)
  show ?thesis
    by (simp add: strip_def dw rev_map)
qed

lemma py_int_dashed: "py_int (map dot_to_dash t) = py_int t"
proof -
  have "digit_val (dot_to_dash c) = digit_val c" for c
    by (simp add: digit_val_def dot_to_dash_def digits_def)
  then show ?thesis
    by (simp add: py_int_def strip_dashed foldl_map)
qed

lemma map_of_dashed:
  "k \<in> {Year, Month, Day} \<Longrightarrow>
   map_of (map (\<lambda>(d, t). (dashed d, map dot_to_dash t)) found) k =
   map_option (map dot_to_dash) (map_of found k)"
proof (induction found)
  case Nil
  show ?case by simp
next
  case (Cons p found)
  obtain d t where p: "p = (d, t)" by (cases p)
  from Cons.prems have "(dashed d = k) = (d = k)" by (cases d) auto
  with Cons p show ?case by auto
qed

lemma strptime_dashed:
  assumes "CHR ''-'' \<notin> set s" and "CHR ''-'' \<notin> set (fmt_chars fmt)"
  shows "strptime (map dot_to_dash s) (map dashed fmt) = strptime s fmt"
proof (cases "re_match fmt s")
  case Nil
  with re_match_dashed [OF assms] show ?thesis by (simp add: strptime_def)
next
  case (Cons p more)
  obtain found rest where p: "p = (found, rest)" by (cases p)
  have g: "(case map_of (map (\<lambda>(d, t). (dashed d, map dot_to_dash t)) found) k of
              Some t \<Rightarrow> py_int t | None \<Rightarrow> dflt) =
           (case map_of found k of Some t \<Rightarrow> py_int t | None \<Rightarrow> dflt)"
    if "k \<in> {Year, Month, Day}" for k dflt
    using map_of_dashed [OF that, of found]
    by (cases "map_of found k") (simp_all add: py_int_dashed)
  from re_match_dashed [OF assms] Cons p show ?thesis
    by (simp add: strptime_def g)
qed

lemma dash_absent:
  "CHR ''-'' \<notin> set (fmt_chars fmt_Y_dot_m_dot_d)"
  "CHR ''.'' \<notin> set (fmt_chars fmt_Y_dash_m_dash_d)"
  "map dashed fmt_Y_dot_m_dot_d = fmt_Y_dash_m_dash_d"
  "set (fmt_chars fmt_Y_dash_m_dash_d) \<subseteq> set (digits @ '' -'')"
  "count_list fmt_Y_dash_m_dash_d (Lit CHR ''-'') = 2"
  by (simp_all add: fmt_chars_def fmt_Y_dot_m_dot_d_def fmt_Y_dash_m_dash_d_def digits_def
      nonzero_def dot_to_dash_def)

lemma sample_date_of_dot:
  assumes "strptime x fmt_Y_dot_m_dot_d = Inr d"
  shows "sample_date x = Inr d"
proof -
  from strptime_shape [OF assms] dash_absent(1) have "CHR ''-'' \<notin> set x" by auto
  from strptime_dashed [OF this dash_absent(1)] assms show ?thesis
    by (simp add: sample_date_def replace_char_dot dash_absent(3))
qed

lemma sample_date_of_dash:
  assumes "strptime x fmt_Y_dash_m_dash_d = Inr d"
  shows "sample_date x = Inr d"
proof -
  from strptime_shape [OF assms] dash_absent(2) have "CHR ''.'' \<notin> set x" by auto
  then have "map dot_to_dash x = x"
    by (induction x) (auto simp: dot_to_dash_def)
  with assms show ?thesis by (simp add: sample_date_def replace_char_dot)
qed

lemma count_dashed:
  "count_list (map dot_to_dash x) CHR ''-'' =
   length (filter (\<lambda>c. c = CHR ''.'' \<or> c = CHR ''-'') x)"
  by (induction x) (auto simp: dot_to_dash_def)

lemma sample_date_shape:
  assumes "sample_date x = Inr d"
  shows "set x \<subseteq> set (digits @ '' .-'')"
    and "2 \<le> length (filter (\<lambda>c. c = CHR ''.'' \<or> c = CHR ''-'') x)"
proof -
  from assms have s: "strptime (map dot_to_dash x) fmt_Y_dash_m_dash_d = Inr d"
    by (simp add: sample_date_def replace_char_dot)
  from strptime_shape [OF s, of "CHR ''-''"] dash_absent(4,5)
  have a: "dot_to_dash ` set x \<subseteq> set (digits @ '' -'')"
    and b: "2 \<le> count_list (map dot_to_dash x) CHR ''-''" by auto
  from b show "2 \<le> length (filter (\<lambda>c. c = CHR ''.'' \<or> c = CHR ''-'') x)"
    by (simp add: count_dashed)
  show "set x \<subseteq> set (digits @ '' .-'')"
  proof
    fix c assume "c \<in> set x"
    with a have "dot_to_dash c \<in> set (digits @ '' -'')" by auto
    then show "c \<in> set (digits @ '' .-'')"
      by (auto simp: dot_to_dash_def split: if_splits)
  qed
qed

lemma sample_date_ValueError: "sample_date x = Inl e \<Longrightarrow> \<exists>msg. e = ValueError msg"
  unfolding sample_date_def by (rule strptime_ValueError)

lemma sample_date_fails:
  assumes "\<And>d. sample_date x \<noteq> Inr d"
  shows "\<exists>msg. sample_date x = Inl (ValueError msg)"
proof (cases "sample_date x")
  case (Inl e)
  with sample_date_ValueError [OF Inl] show ?thesis by auto
next
  case (Inr d)
  with assms [of d] show ?thesis by simp
qed

lemma slash_formats:
  assumes "fmt \<in> {fmt_Y_slash_m_slash_d, fmt_m_slash_d_slash_Y, fmt_d_slash_m_slash_Y}"
    and "strptime x fmt = Inr d"
  shows "CHR ''/'' \<in> set x"
proof -
  from assms(1) have "count_list fmt (Lit CHR ''/'') = 2"
    by (auto simp: fmt_Y_slash_m_slash_d_def fmt_m_slash_d_slash_Y_def fmt_d_slash_m_slash_Y_def)
  with strptime_shape [OF assms(2), of "CHR ''/''"] have "0 < count_list x CHR ''/''" by simp
  then show ?thesis using count_list_0_iff [of x "CHR ''/''"] by auto
qed


text \<open>The loaders raise exactly when a date cell does not parse.\<close>

lemma series_apply_Inl_iff:
  "(\<exists>e. series_apply f xs = Inl e) \<longleftrightarrow> (\<exists>x \<in> set xs. \<exists>e. f x = Inl e)"
  by (induction xs) (auto split: sum.splits)

lemma to_float_ct_not_Inl: "to_float_ct fl x \<noteq> Inl e"
  by (simp add: to_float_ct_def Let_def split: sum.splits)

lemma load_frame_raises_iff:
  "(\<exists>e. load_frame parse fl df = Inl e) \<longleftrightarrow>
   (\<exists>r \<in> set df. \<exists>e. parse (raw_Test_Date r) = Inl e)"
proof -
  have ct: "\<not> (\<exists>e. series_apply (to_float_ct fl) (map raw_CT_Value df) = Inl e)"
    unfolding series_apply_Inl_iff by (simp add: to_float_ct_not_Inl)
  have "(\<exists>e. load_frame parse fl df = Inl e) \<longleftrightarrow>
        (\<exists>e. series_apply parse (map raw_Test_Date df) = Inl e)"
    using ct by (auto simp: load_frame_def split: sum.splits)
  then show ?thesis by (simp add: series_apply_Inl_iff)
qed

lemma load_sample_raises_iff:
  "(\<exists>e. load_sample fl RAW = Inl e) \<longleftrightarrow>
   (\<exists>r \<in> set RAW. \<exists>e. sample_date (raw_Test_Date r) = Inl e)"
  unfolding load_sample_def by (rule load_frame_raises_iff)

text \<open>
  Claim C10, as stated, says that on the sample path only dates written as YYYY.MM.DD or
  YYYY-MM-DD load. The string "2025.10-28" is in neither format, and the upload path rejects
  it, but the sample path loads it: after the replacement it reads 2025-10-28.
\<close>

theorem sample_date_mixed_counterexample:
  "sample_date ''2025.10-28'' = Inr (2025, 10, 28) \<and>
   strptime ''2025.10-28'' fmt_Y_dot_m_dot_d =
     Inl (ValueError ''time data does not match format'') \<and>
   strptime ''2025.10-28'' fmt_Y_dash_m_dash_d =
     Inl (ValueError ''time data does not match format'') \<and>
   parse_date_any fl_examples ''2025.10-28'' =
     Inl (ValueError ''Failed to parse date: 2025.10-28'')"
  by code_simp

text \<open>
  Claim C10, amended. The sample loader parses a date by replacing every "." with "-" and
  then strictly parsing YYYY-MM-DD. So a date written as YYYY.MM.DD or as YYYY-MM-DD loads,
  with the date it has in that format, and so does every string that reads YYYY-MM-DD after
  the replacement, also with mixed separators. A string that loads consists of digits,
  blanks, "." and "-" and has at least two of "." and "-": a date in the format
  YYYY/MM/DD, MM/DD/YYYY or DD/MM/YYYY and a string with fewer than two of "." and "-"
  (every plain serial number) raise ValueError. \<^verbatim>\<open>load_sample\<close> raises exactly when the
  date of some row does.
\<close>

theorem sample_date_spec:
  "sample_date x = strptime (replace_char CHR ''.'' CHR ''-'' x) fmt_Y_dash_m_dash_d \<and>
   (strptime x fmt_Y_dot_m_dot_d = Inr d \<longrightarrow> sample_date x = Inr d) \<and>
   (strptime x fmt_Y_dash_m_dash_d = Inr d \<longrightarrow> sample_date x = Inr d) \<and>
   (sample_date x = Inr d \<longrightarrow>
      set x \<subseteq> set (digits @ '' .-'') \<and>
      2 \<le> length (filter (\<lambda>c. c = CHR ''.'' \<or> c = CHR ''-'') x)) \<and>
   (fmt \<in> {fmt_Y_slash_m_slash_d, fmt_m_slash_d_slash_Y, fmt_d_slash_m_slash_Y} \<and>
    strptime x fmt = Inr d \<longrightarrow> (\<exists>msg. sample_date x = Inl (ValueError msg))) \<and>
   (length (filter (\<lambda>c. c = CHR ''.'' \<or> c = CHR ''-'') x) < 2 \<longrightarrow>
      (\<exists>msg. sample_date x = Inl (ValueError msg))) \<and>
   ((\<exists>e. load_sample fl RAW = Inl e) \<longleftrightarrow>
    (\<exists>r \<in> set RAW. \<exists>e. sample_date (raw_Test_Date r) = Inl e))"
proof -
  have 1: "sample_date x = strptime (replace_char CHR ''.'' CHR ''-'' x) fmt_Y_dash_m_dash_d"
    by (simp add: sample_date_def)
  have 2: "strptime x fmt_Y_dot_m_dot_d = Inr d \<longrightarrow> sample_date x = Inr d"
    by (simp add: sample_date_of_dot)
  have 3: "strptime x fmt_Y_dash_m_dash_d = Inr d \<longrightarrow> sample_date x = Inr d"
    by (simp add: sample_date_of_dash)
  have 4: "sample_date x = Inr d \<longrightarrow>
      set x \<subseteq> set (digits @ '' .-'') \<and>
      2 \<le> length (filter (\<lambda>c. c = CHR ''.'' \<or> c = CHR ''-'') x)"
    using sample_date_shape [of x d] by blast
  have 5: "\<exists>msg. sample_date x = Inl (ValueError msg)"
    if h: "fmt \<in> {fmt_Y_slash_m_slash_d, fmt_m_slash_d_slash_Y, fmt_d_slash_m_slash_Y} \<and>
           strptime x fmt = Inr d"
  proof (rule sample_date_fails)
    fix d'
    from h slash_formats [of fmt x d] have sl: "CHR ''/'' \<in> set x" by blast
    show "sample_date x \<noteq> Inr d'"
    proof
      assume "sample_date x = Inr d'"
      from sample_date_shape(1) [OF this] sl have "CHR ''/'' \<in> set (digits @ '' .-'')"
        by blast
      then show False by (simp add: digits_def)
    qed
  qed
  have 6: "\<exists>msg. sample_date x = Inl (ValueError msg)"
    if h: "length (filter (\<lambda>c. c = CHR ''.'' \<or> c = CHR ''-'') x) < 2"
  proof (rule sample_date_fails)
    fix d'
    show "sample_date x \<noteq> Inr d'"
    proof
      assume "sample_date x = Inr d'"
      from sample_date_shape(2) [OF this] h show False by simp
    qed
  qed
  from 1 2 3 4 5 6 load_sample_raises_iff [of fl RAW] show ?thesis by blast
qed

lemma sample_example_facts:
  "strptime ''2025.10.28'' fmt_Y_dot_m_dot_d = Inr (2025, 10, 28)"
  "strptime ''03/04/2025'' fmt_m_slash_d_slash_Y = Inr (2025, 3, 4)"
  "length (filter (\<lambda>c. c = CHR ''.'' \<or> c = CHR ''-'') ''45958.75'') = 1"
  "parse_date_any fl_examples ''03/04/2025'' = Inr (2025, 3, 4)"
  "parse_date_any fl_examples ''45958.75'' = Inr (2025, 10, 28)"
  by code_simp+

theorem sample_date_spec_witness:
  "strptime ''2025.10.28'' fmt_Y_dot_m_dot_d = Inr (2025, 10, 28) \<and>
   sample_date ''2025.10.28'' = Inr (2025, 10, 28) \<and>
   set ''2025.10.28'' \<subseteq> set (digits @ '' .-'') \<and>
   parse_date_any fl_examples ''03/04/2025'' = Inr (2025, 3, 4) \<and>
   (\<exists>msg. sample_date ''03/04/2025'' = Inl (ValueError msg)) \<and>
   parse_date_any fl_examples ''45958.75'' = Inr (2025, 10, 28) \<and>
   (\<exists>msg. sample_date ''45958.75'' = Inl (ValueError msg))"
proof -
  note a = sample_date_spec [where x = "''2025.10.28''" and d = "(2025, 10, 28)"
      and fmt = fmt_m_slash_d_slash_Y]
  from a sample_example_facts(1) have 1: "sample_date ''2025.10.28'' = Inr (2025, 10, 28)"
    by blast
  with a have 2: "set ''2025.10.28'' \<subseteq> set (digits @ '' .-'')" by blast
  note b = sample_date_spec [where x = "''03/04/2025''" and d = "(2025, 3, 4)"
      and fmt = fmt_m_slash_d_slash_Y]
  from b sample_example_facts(2) have 3: "\<exists>msg. sample_date ''03/04/2025'' = Inl (ValueError msg)"
    by blast
  note c = sample_date_spec [where x = "''45958.75''" and d = "(2025, 10, 28)"
      and fmt = fmt_m_slash_d_slash_Y]
  have "length (filter (\<lambda>c. c = CHR ''.'' \<or> c = CHR ''-'') ''45958.75'') < 2"
    by (simp add: sample_example_facts(3))
  with c have 4: "\<exists>msg. sample_date ''45958.75'' = Inl (ValueError msg)" by blast
  from 1 2 3 4 sample_example_facts(1,4,5) show ?thesis by blast
qed

end
